theory Spec2Isabelle
  imports Main "HOL-Library.Multiset"
begin

section \<open>Data model of pkg/auth/mtls_authhandler.go\<close>

text \<open>
  A \<open>time.Time\<close> is modelled by the instant it denotes, an integer; \<open>Before\<close> is \<open><\<close>.
  A numeric identity is an unsigned number. A raw certificate is the DER byte string
  delivered by the TLS layer.
\<close>

type_synonym time = int
type_synonym numericIdentity = nat
type_synonym rawCert = "nat list"

text \<open>
  The fields of \<open>x509.Certificate\<close> the handler reads: the CA flag, the expiration and
  the URI SANs (logged only). \<open>Raw\<close> stands for the rest of the certificate.
\<close>

record certificate =
  IsCA :: bool
  NotAfter :: time
  URIs :: "string list"
  Raw :: rawCert

text \<open>An \<open>x509.CertPool\<close>, as the certificates added to it, in the order of \<open>AddCert\<close>.\<close>

type_synonym certPool = "certificate list"

text \<open>
  \<open>tls.Certificate\<close>: \<open>Leaf\<close> is a pointer that crypto/tls allows to be nil.
\<close>

record tlsCertificate =
  Leaf :: "certificate option"

record authRequest =
  localIdentity :: numericIdentity
  remoteIdentity :: numericIdentity
  remoteNodeIP :: string

record authResponse =
  expirationTime :: time

record MutualAuthConfig =
  MutualAuthListenerPort :: int

text \<open>
  Errors as values. The source builds its errors with \<open>errors.New\<close> and \<open>fmt.Errorf\<close>;
  each constructor is one of those messages, and a constructor with an argument wraps
  an underlying error with \<open>%w\<close>:
  \<^item> \<open>External\<close>: an error made by a collaborator (certificate provider, net, crypto);
  \<^item> \<open>ErrClosed\<close>: \<open>net.ErrClosed\<close>; \<open>OpError\<close>: an error of package net wrapping another;
  \<^item> \<open>InvalidRequest\<close>: "authRequest is nil";
  \<^item> \<open>CertificateUnavailable\<close>: "failed to get certificate for local identity ...";
  \<^item> \<open>TrustBundleUnavailable\<close>: "failed to get CA bundle";
  \<^item> \<open>ConnectionFailed\<close>: "failed to dial ...";
  \<^item> \<open>HandshakeFailed\<close>: "failed to perform TLS handshake";
  \<^item> \<open>NoExpirationDetermined\<close>: "failed to get expiration time of peer certificate";
  \<^item> \<open>CertificateParseError\<close>: "failed to parse certificate";
  \<^item> \<open>EmptyChainList\<close>: "no certificate chains found";
  \<^item> \<open>MissingLeafCertificate\<close>: "no leaf certificate found";
  \<^item> \<open>ChainVerificationFailed\<close>: "failed to verify certificate";
  \<^item> \<open>IdentityValidationFailed\<close>: "failed to validate SAN";
  \<^item> \<open>IdentityMismatch\<close>: "unable to validate SAN";
  \<^item> \<open>UnknownSNI\<close>: "failed to get identity for SNI ...";
  \<^item> \<open>NilDereference\<close>: not an error value but the run-time panic of dereferencing nil.
\<close>

datatype error =
    External string
  | ErrClosed
  | OpError string error
  | InvalidRequest
  | CertificateUnavailable error
  | TrustBundleUnavailable error
  | ConnectionFailed error
  | HandshakeFailed error
  | NoExpirationDetermined
  | CertificateParseError error
  | EmptyChainList
  | MissingLeafCertificate
  | ChainVerificationFailed error
  | IdentityValidationFailed error
  | IdentityMismatch
  | UnknownSNI error
  | NilDereference

text \<open>
  \<open>errors.Is\<close>: the error is the target, or it wraps an error that is.
\<close>

fun errorsIs :: "error \<Rightarrow> error \<Rightarrow> bool" where
  "errorsIs (OpError s e) target = (OpError s e = target \<or> errorsIs e target)"
| "errorsIs (CertificateUnavailable e) target =
     (CertificateUnavailable e = target \<or> errorsIs e target)"
| "errorsIs (TrustBundleUnavailable e) target =
     (TrustBundleUnavailable e = target \<or> errorsIs e target)"
| "errorsIs (ConnectionFailed e) target = (ConnectionFailed e = target \<or> errorsIs e target)"
| "errorsIs (HandshakeFailed e) target = (HandshakeFailed e = target \<or> errorsIs e target)"
| "errorsIs (CertificateParseError e) target =
     (CertificateParseError e = target \<or> errorsIs e target)"
| "errorsIs (ChainVerificationFailed e) target =
     (ChainVerificationFailed e = target \<or> errorsIs e target)"
| "errorsIs (IdentityValidationFailed e) target =
     (IdentityValidationFailed e = target \<or> errorsIs e target)"
| "errorsIs (UnknownSNI e) target = (UnknownSNI e = target \<or> errorsIs e target)"
| "errorsIs e target = (e = target)"

datatype logLevel = Debug | Info | Error | Fatal

text \<open>
  What a call does besides returning: the calls to the certificate provider, the network
  operations, the X.509 path validations, the goroutines started and the log lines, in
  the order they happen.
\<close>

datatype event =
    EvGetCertificateForIdentity numericIdentity
  | EvGetTrustBundle
  | EvNumericIdentityToSNI numericIdentity
  | EvValidateIdentity numericIdentity certificate
  | EvDial string int
  | EvListen int
  | EvReady
  | EvHandshake string
  | EvVerify certificate certPool certPool
  | EvTLSClose
  | EvConnClose
  | EvGoHandleConnection nat
  | EvLog logLevel string

text \<open>
  How the remote end of one TLS handshake behaves, as far as the client's handshake can
  tell: it fails before the peer's certificates are looked at, or the peer presents raw
  certificates, the \<open>VerifyPeerCertificate\<close> callback runs once on them (the
  configuration has no session cache, so no handshake is resumed), and the rest of the
  handshake fails or not.
\<close>

datatype handshakeScript =
    AbortBeforeCertificates error
  | PresentCertificates "rawCert list" "error option"

text \<open>
  The interface \<open>certs.CertificateProvider\<close>, as the functions its methods compute.
  A Go result \<open>(v, err)\<close> is \<open>Inl err\<close> or \<open>Inr v\<close>; the certificate of
  \<open>GetCertificateForIdentity\<close> is a pointer, nil is \<open>None\<close>.
\<close>

record CertificateProvider =
  GetCertificateForIdentity :: "numericIdentity \<Rightarrow> error + tlsCertificate option"
  GetTrustBundle :: "error + certPool"
  NumericIdentityToSNI :: "numericIdentity \<Rightarrow> string"
  SNIToNumericIdentity :: "string \<Rightarrow> error + numericIdentity"
  ValidateIdentity :: "numericIdentity \<Rightarrow> certificate \<Rightarrow> error + bool"

text \<open>
  The library functions the handler calls: \<open>net.Dial\<close> (address, port),
  \<open>ListenConfig.Listen\<close> (port), \<open>x509.ParseCertificate\<close>,
  \<open>(*x509.Certificate).Verify\<close> (leaf, roots, intermediates), and the peer of a TLS
  client handshake (by server name).
\<close>

record world =
  Dial :: "string \<Rightarrow> int \<Rightarrow> error option"
  Listen :: "int \<Rightarrow> error option"
  ParseCertificate :: "rawCert \<Rightarrow> error + certificate"
  Verify :: "certificate \<Rightarrow> certPool \<Rightarrow> certPool \<Rightarrow> error option"
  TLSPeer :: "string \<Rightarrow> handshakeScript"

text \<open>
  \<open>mutualAuthHandler\<close> (its logger writes \<open>EvLog\<close> events; \<open>cancelSocketListen\<close> is
  the stop signal, which the accept loop sees as \<open>net.ErrClosed\<close>).
\<close>

record mutualAuthHandler =
  cfg :: MutualAuthConfig
  cert :: CertificateProvider

record mtlsParams =
  CertificateProviderOf :: "CertificateProvider option"

record authHandlerResult =
  AuthHandler :: "mutualAuthHandler option"

text \<open>
  A \<open>hive.Hook\<close> as \<open>newMTLSAuthHandler\<close> builds it: \<open>OnStart\<close> and \<open>OnStop\<close> are
  the methods \<open>onStart\<close> and \<open>onStop\<close> of one handler.
\<close>

datatype hook = Hook mutualAuthHandler

text \<open>
  Modelled from the spec: \<open>hive.Lifecycle\<close>, whose code is in package hive, not in
  this file. It is the list of the hooks appended to it; \<open>lc.Append\<close> adds one at the
  end.
\<close>

type_synonym lifecycle = "hook list"

section \<open>verifyPeerCertificate\<close>

text \<open>
  The inner loop (lines 245-252): every certificate of the chain either goes to the
  intermediates pool (CA flag set) or overwrites \<open>leaf\<close>.
\<close>

fun splitChain :: "certificate list \<Rightarrow> certPool \<Rightarrow> certificate option
    \<Rightarrow> certPool \<times> certificate option" where
  "splitChain [] intermediates leaf = (intermediates, leaf)"
| "splitChain (c # chain) intermediates leaf =
     (if IsCA c then splitChain chain (intermediates @ [c]) leaf
      else splitChain chain intermediates (Some c))"

text \<open>
  The body of the outer loop (lines 240-271) for one chain: the events it causes and
  either the error it returns with or the leaf's \<open>NotAfter\<close>, the new value of
  \<open>expirationTime\<close>.
\<close>

definition verifyChain :: "world \<Rightarrow> mutualAuthHandler \<Rightarrow> numericIdentity option \<Rightarrow> certPool
    \<Rightarrow> certificate list \<Rightarrow> event list \<times> (error + time)" where
  "verifyChain w m ident caBundle chain =
     (case splitChain chain [] None of
        (intermediates, None) \<Rightarrow> ([], Inl MissingLeafCertificate)
      | (intermediates, Some leaf) \<Rightarrow>
          (case Verify w leaf caBundle intermediates of
             Some err \<Rightarrow>
               ([EvVerify leaf caBundle intermediates], Inl (ChainVerificationFailed err))
           | None \<Rightarrow>
               (case ident of
                  None \<Rightarrow>
                    ([EvVerify leaf caBundle intermediates,
                      EvLog Debug ''Validated certificate''], Inr (NotAfter leaf))
                | Some i \<Rightarrow>
                    (case ValidateIdentity (cert m) i leaf of
                       Inl err \<Rightarrow>
                         ([EvVerify leaf caBundle intermediates,
                           EvLog Debug ''Validating Server SNI'',
                           EvValidateIdentity i leaf], Inl (IdentityValidationFailed err))
                     | Inr valid \<Rightarrow>
                         if \<not> valid then
                           ([EvVerify leaf caBundle intermediates,
                             EvLog Debug ''Validating Server SNI'',
                             EvValidateIdentity i leaf], Inl IdentityMismatch)
                         else
                           ([EvVerify leaf caBundle intermediates,
                             EvLog Debug ''Validating Server SNI'',
                             EvValidateIdentity i leaf,
                             EvLog Debug ''Validated certificate''], Inr (NotAfter leaf))))))"

text \<open>
  The outer loop (line 239) over the chains, with the pointer \<open>expirationTime\<close> (nil
  is \<open>None\<close>) as accumulator.
\<close>

fun verifyChains :: "world \<Rightarrow> mutualAuthHandler \<Rightarrow> numericIdentity option \<Rightarrow> certPool
    \<Rightarrow> certificate list list \<Rightarrow> time option \<Rightarrow> event list \<times> (error + time option)" where
  "verifyChains w m ident caBundle [] expiration = ([], Inr expiration)"
| "verifyChains w m ident caBundle (chain # certChains) expiration =
     (case verifyChain w m ident caBundle chain of
        (evs, Inl err) \<Rightarrow> (evs, Inl err)
      | (evs, Inr t) \<Rightarrow>
          (case verifyChains w m ident caBundle certChains (Some t) of
             (evs', r) \<Rightarrow> (evs @ evs', r)))"

definition verifyPeerCertificate :: "world \<Rightarrow> mutualAuthHandler \<Rightarrow> numericIdentity option
    \<Rightarrow> certPool \<Rightarrow> certificate list list \<Rightarrow> event list \<times> (error + time option)" where
  "verifyPeerCertificate w m ident caBundle certChains =
     (if length certChains = 0 then ([], Inl EmptyChainList)
      else verifyChains w m ident caBundle certChains None)"

section \<open>authenticate\<close>

text \<open>The parsing loop of the callback (lines 111-118).\<close>

fun parseChain :: "world \<Rightarrow> rawCert list \<Rightarrow> error + certificate list" where
  "parseChain w [] = Inr []"
| "parseChain w (rawCert # rawCerts) =
     (case ParseCertificate w rawCert of
        Inl err \<Rightarrow> Inl (CertificateParseError err)
      | Inr c \<Rightarrow>
          (case parseChain w rawCerts of
             Inl err \<Rightarrow> Inl err
           | Inr chain \<Rightarrow> Inr (c # chain)))"

text \<open>
  The \<open>VerifyPeerCertificate\<close> callback (lines 108-125). It reads and writes the
  captured pointer \<open>expirationTime\<close>: the argument \<open>expiration\<close> is its value before,
  and the result holds its value after together with the error the callback returns.
  \<open>Inl\<close> is the panic of dereferencing the pointer when it is nil.
\<close>

definition verifyPeerCertificateCallback :: "world \<Rightarrow> mutualAuthHandler \<Rightarrow> authRequest
    \<Rightarrow> certPool \<Rightarrow> rawCert list \<Rightarrow> time option
    \<Rightarrow> event list \<times> (error + time option \<times> error option)" where
  "verifyPeerCertificateCallback w m ar caBundle rawCerts expiration =
     (case parseChain w rawCerts of
        Inl err \<Rightarrow> ([], Inr (expiration, Some err))
      | Inr chain \<Rightarrow>
          (case verifyPeerCertificate w m (Some (remoteIdentity ar)) caBundle [chain] of
             (evs, Inl err) \<Rightarrow> (evs, Inr (expiration, Some err))
           | (evs, Inr None) \<Rightarrow> (evs, Inr (expiration, None))
           | (evs, Inr (Some peerExpirationTime)) \<Rightarrow>
               (case expiration of
                  None \<Rightarrow> (evs, Inl NilDereference)
                | Some t \<Rightarrow>
                    (evs, Inr (if peerExpirationTime < t then Some peerExpirationTime
                               else expiration, None)))))"

text \<open>
  \<open>tlsConn.Handshake()\<close> (line 131) with the configuration of lines 101-128: the
  server name is asked from the provider, and the handshake fails with the callback's
  error when the callback returns one.
\<close>

definition tlsHandshake :: "world \<Rightarrow> mutualAuthHandler \<Rightarrow> authRequest \<Rightarrow> certPool
    \<Rightarrow> time option \<Rightarrow> event list \<times> (error + time option \<times> error option)" where
  "tlsHandshake w m ar caBundle expiration =
     (let sni = NumericIdentityToSNI (cert m) (remoteIdentity ar) in
      case TLSPeer w sni of
        AbortBeforeCertificates err \<Rightarrow> ([EvHandshake sni], Inr (expiration, Some err))
      | PresentCertificates rawCerts rest \<Rightarrow>
          (case verifyPeerCertificateCallback w m ar caBundle rawCerts expiration of
             (evs, Inl p) \<Rightarrow> (EvHandshake sni # evs, Inl p)
           | (evs, Inr (expiration', Some err)) \<Rightarrow>
               (EvHandshake sni # evs, Inr (expiration', Some err))
           | (evs, Inr (expiration', None)) \<Rightarrow>
               (EvHandshake sni # evs, Inr (expiration', rest))))"

text \<open>
  \<open>&clientCert.Leaf.NotAfter\<close> (line 96): the address of the local leaf's expiration,
  a panic (\<open>None\<close>) when \<open>clientCert\<close> or its \<open>Leaf\<close> is nil.
\<close>

definition leafNotAfter :: "tlsCertificate option \<Rightarrow> time option" where
  "leafNotAfter clientCert =
     (case clientCert of
        None \<Rightarrow> None
      | Some c \<Rightarrow> (case Leaf c of None \<Rightarrow> None | Some l \<Rightarrow> Some (NotAfter l)))"

text \<open>
  \<open>authenticate\<close> (lines 75-142); a nil request is \<open>None\<close>. The deferred closes run
  at every return after the dial, the TLS connection's first.
\<close>

definition authenticate :: "world \<Rightarrow> mutualAuthHandler \<Rightarrow> authRequest option
    \<Rightarrow> event list \<times> (error + authResponse)" where
  "authenticate w m arp =
     (case arp of
        None \<Rightarrow> ([], Inl InvalidRequest)
      | Some ar \<Rightarrow>
          (case GetCertificateForIdentity (cert m) (localIdentity ar) of
             Inl err \<Rightarrow>
               ([EvGetCertificateForIdentity (localIdentity ar)],
                Inl (CertificateUnavailable err))
           | Inr clientCert \<Rightarrow>
               (case GetTrustBundle (cert m) of
                  Inl err \<Rightarrow>
                    ([EvGetCertificateForIdentity (localIdentity ar), EvGetTrustBundle],
                     Inl (TrustBundleUnavailable err))
                | Inr caBundle \<Rightarrow>
                    (let pre = [EvGetCertificateForIdentity (localIdentity ar),
                                EvGetTrustBundle,
                                EvDial (remoteNodeIP ar) (MutualAuthListenerPort (cfg m))] in
                     case Dial w (remoteNodeIP ar) (MutualAuthListenerPort (cfg m)) of
                       Some err \<Rightarrow> (pre, Inl (ConnectionFailed err))
                     | None \<Rightarrow>
                         (case leafNotAfter clientCert of
                            None \<Rightarrow> (pre @ [EvConnClose], Inl NilDereference)
                          | Some localNotAfter \<Rightarrow>
                              (let pre' = pre @ [EvNumericIdentityToSNI (remoteIdentity ar)] in
                               case tlsHandshake w m ar caBundle (Some localNotAfter) of
                                 (evs, Inl p) \<Rightarrow>
                                   (pre' @ evs @ [EvTLSClose, EvConnClose], Inl p)
                               | (evs, Inr (expiration, Some err)) \<Rightarrow>
                                   (pre' @ evs @ [EvTLSClose, EvConnClose],
                                    Inl (HandshakeFailed err))
                               | (evs, Inr (None, None)) \<Rightarrow>
                                   (pre' @ evs @ [EvTLSClose, EvConnClose],
                                    Inl NoExpirationDetermined)
                               | (evs, Inr (Some t, None)) \<Rightarrow>
                                   (pre' @ evs @ [EvTLSClose, EvConnClose],
                                    Inr \<lparr>expirationTime = t\<rparr>)))))))"

section \<open>The listener\<close>

text \<open>What one call of \<open>l.Accept()\<close> returns: a connection or an error.\<close>

datatype acceptOutcome = Accepted nat | AcceptError error

text \<open>
  Where the accept loop is: \<open>Listening\<close> (in the loop, at \<open>Accept\<close>) or \<open>Closed\<close>
  (it has returned).
\<close>

datatype listenerState = Listening | Closed

text \<open>One iteration of the loop (lines 168-177), for what \<open>Accept\<close> returned.\<close>

definition acceptIteration :: "acceptOutcome \<Rightarrow> listenerState \<times> event list" where
  "acceptIteration outcome =
     (case outcome of
        AcceptError err \<Rightarrow>
          (if errorsIs err ErrClosed then
             (Closed, [EvLog Error ''Failed to accept connection'',
                       EvLog Info ''mTLS listener socket got closed''])
           else (Listening, [EvLog Error ''Failed to accept connection'']))
      | Accepted conn \<Rightarrow> (Listening, [EvGoHandleConnection conn]))"

text \<open>
  The loop (line 167) on the outcomes of the calls of \<open>Accept\<close> so far: it goes on
  until an iteration returns; with no outcome left it waits in \<open>Accept\<close>.
\<close>

fun acceptLoop :: "acceptOutcome list \<Rightarrow> listenerState \<times> event list" where
  "acceptLoop [] = (Listening, [])"
| "acceptLoop (outcome # outcomes) =
     (case acceptIteration outcome of
        (Closed, evs) \<Rightarrow> (Closed, evs)
      | (Listening, evs) \<Rightarrow>
          (case acceptLoop outcomes of (s, evs') \<Rightarrow> (s, evs @ evs')))"

text \<open>
  \<open>listenForConnections\<close> (lines 148-179); \<open>None\<close> is the exit of the process by
  \<open>log.Fatal\<close> when the socket cannot be bound.
\<close>

definition listenForConnections :: "world \<Rightarrow> mutualAuthHandler \<Rightarrow> acceptOutcome list
    \<Rightarrow> event list \<times> listenerState option" where
  "listenForConnections w m outcomes =
     (case Listen w (MutualAuthListenerPort (cfg m)) of
        Some err \<Rightarrow>
          ([EvListen (MutualAuthListenerPort (cfg m)),
            EvLog Fatal ''Failed to start mTLS listener''], None)
      | None \<Rightarrow>
          (case acceptLoop outcomes of
             (s, evs) \<Rightarrow>
               ([EvListen (MutualAuthListenerPort (cfg m)),
                 EvLog Info ''Started mTLS listener'', EvReady] @ evs, Some s)))"

text \<open>
  \<open>onStart\<close> (lines 213-223): the events of the hook and of the listener goroutine it
  starts and waits for.
\<close>

definition onStart :: "world \<Rightarrow> mutualAuthHandler \<Rightarrow> acceptOutcome list \<Rightarrow> event list" where
  "onStart w m outcomes =
     EvLog Info ''Starting mTLS auth handler'' # fst (listenForConnections w m outcomes)"

text \<open>
  Modelled from the spec: the start of a \<open>hive.Lifecycle\<close>, whose code is in package
  hive, not in this file. It runs the start hook of every hook appended, in order.
\<close>

fun startLifecycle :: "world \<Rightarrow> lifecycle \<Rightarrow> acceptOutcome list \<Rightarrow> event list" where
  "startLifecycle w [] outcomes = []"
| "startLifecycle w (Hook m # lc) outcomes = onStart w m outcomes @ startLifecycle w lc outcomes"

section \<open>newMTLSAuthHandler\<close>

text \<open>
  \<open>newMTLSAuthHandler\<close> (lines 33-53): the log lines, and the result with the
  lifecycle after the call; \<open>None\<close> is the exit of the process by \<open>log.Fatal\<close>.
\<close>

definition newMTLSAuthHandler :: "lifecycle \<Rightarrow> MutualAuthConfig \<Rightarrow> mtlsParams
    \<Rightarrow> event list \<times> (authHandlerResult \<times> lifecycle) option" where
  "newMTLSAuthHandler lc config params =
     (if MutualAuthListenerPort config = 0 then
        ([EvLog Info ''mutual authentication handler is disabled as no port is configured''],
         Some (\<lparr>AuthHandler = None\<rparr>, lc))
      else
        (case CertificateProviderOf params of
           None \<Rightarrow>
             ([EvLog Fatal ''No certificate provider configured, but one is required. Please check if the spire flags are configured.''],
              None)
         | Some provider \<Rightarrow>
             (let mtls = \<lparr>cfg = config, cert = provider\<rparr> in
              ([], Some (\<lparr>AuthHandler = Some mtls\<rparr>, lc @ [Hook mtls])))))"

text \<open>\<open>GetCertificateForIncomingConnection\<close> (lines 203-211), without its log line.\<close>

definition GetCertificateForIncomingConnection :: "mutualAuthHandler \<Rightarrow> string
    \<Rightarrow> error + tlsCertificate option" where
  "GetCertificateForIncomingConnection m serverName =
     (case SNIToNumericIdentity (cert m) serverName of
        Inl err \<Rightarrow> Inl (UnknownSNI err)
      | Inr i \<Rightarrow> GetCertificateForIdentity (cert m) i)"

section \<open>The specification's partition\<close>

text \<open>
  The specification's words for the split of a chain, "intermediates (certificates
  flagged as CA) and exactly one leaf (the remaining certificate)": the chain is made of
  the intermediates and the leaf, and of nothing else. This definition follows the
  specification, not the source; \<open>splitChain\<close> is the source's.
\<close>

definition spec_partition :: "certificate list \<Rightarrow> certPool \<Rightarrow> certificate \<Rightarrow> bool" where
  "spec_partition chain intermediates leaf =
     (mset chain = mset intermediates + {#leaf#}
      \<and> list_all IsCA intermediates \<and> \<not> IsCA leaf)"

section \<open>A concrete deployment\<close>

text \<open>
  The scenario of the specification: local identity 5 with a certificate expiring on
  2030-01-01, remote identity 10 at 10.0.0.2, port 4250, the remote's certificate
  expiring on 2029-06-01 (times in seconds since 1970), one root and one intermediate CA.
\<close>

definition rootCA :: certificate where
  "rootCA = \<lparr>IsCA = True, NotAfter = 2051222400, URIs = [], Raw = [0]\<rparr>"

definition intermediateCA :: certificate where
  "intermediateCA = \<lparr>IsCA = True, NotAfter = 1956528000, URIs = [], Raw = [3]\<rparr>"

definition localLeaf :: certificate where
  "localLeaf = \<lparr>IsCA = False, NotAfter = 1893456000, URIs = [''spiffe://cilium/identity/5''],
     Raw = [1]\<rparr>"

definition remoteLeaf :: certificate where
  "remoteLeaf = \<lparr>IsCA = False, NotAfter = 1874966400, URIs = [''spiffe://cilium/identity/10''],
     Raw = [2]\<rparr>"

definition sniOf :: "numericIdentity \<Rightarrow> string" where
  "sniOf i = (if i = 5 then ''5.cilium'' else if i = 10 then ''10.cilium'' else ''unknown'')"

definition uriOf :: "numericIdentity \<Rightarrow> string" where
  "uriOf i = (if i = 5 then ''spiffe://cilium/identity/5''
              else if i = 10 then ''spiffe://cilium/identity/10'' else [])"

definition provider0 :: CertificateProvider where
  "provider0 =
     \<lparr>GetCertificateForIdentity =
        (\<lambda>i. if i = 5 then Inr (Some \<lparr>Leaf = Some localLeaf\<rparr>)
             else if i = 10 then Inr (Some \<lparr>Leaf = Some remoteLeaf\<rparr>)
             else Inl (External ''no certificate for identity'')),
      GetTrustBundle = Inr [rootCA],
      NumericIdentityToSNI = sniOf,
      SNIToNumericIdentity =
        (\<lambda>s. if s = ''5.cilium'' then Inr 5 else if s = ''10.cilium'' then Inr 10
             else Inl (External ''unknown identity'')),
      ValidateIdentity = (\<lambda>i c. Inr (URIs c = [uriOf i]))\<rparr>"

definition world0 :: world where
  "world0 =
     \<lparr>Dial = (\<lambda>ip port. if ip = ''10.0.0.2'' \<and> port = 4250 then None
                        else Some (External ''connection refused'')),
      Listen = (\<lambda>port. None),
      ParseCertificate =
        (\<lambda>raw. if raw = [1] then Inr localLeaf
               else if raw = [2] then Inr remoteLeaf
               else if raw = [3] then Inr intermediateCA
               else Inl (External ''malformed certificate'')),
      Verify = (\<lambda>leaf roots intermediates.
                  if roots = [rootCA] \<and> (Raw leaf = [1] \<or> Raw leaf = [2]) then None
                  else Some (External ''certificate signed by unknown authority'')),
      TLSPeer = (\<lambda>sni. if sni = ''10.cilium'' then PresentCertificates [[3], [2]] None
                       else AbortBeforeCertificates (External ''no such peer''))\<rparr>"

definition handler0 :: mutualAuthHandler where
  "handler0 = \<lparr>cfg = \<lparr>MutualAuthListenerPort = 4250\<rparr>, cert = provider0\<rparr>"

definition request0 :: authRequest where
  "request0 = \<lparr>localIdentity = 5, remoteIdentity = 10, remoteNodeIP = ''10.0.0.2''\<rparr>"

text \<open>The definitions of the concrete deployment, for evaluating it.\<close>

lemmas scenario_defs = rootCA_def intermediateCA_def localLeaf_def remoteLeaf_def sniOf_def
  uriOf_def provider0_def world0_def handler0_def request0_def

section \<open>Empty chain list\<close>

text \<open>
  C4: for every trust bundle, every expected identity (present or not) and every
  behaviour of the collaborators, verifyPeerCertificate on an empty list of chains
  returns the EmptyChainList error and causes no event: no path validation, no
  identity validation, no log line.
\<close>

theorem verifyPeerCertificate_empty:
  "verifyPeerCertificate w m ident caBundle [] = ([], Inl EmptyChainList)"
  by (simp add: verifyPeerCertificate_def)

theorem verifyPeerCertificate_empty_witness:
  "verifyPeerCertificate world0 handler0 (Some 10) [rootCA] [] = ([], Inl EmptyChainList)
   \<and> verifyPeerCertificate world0 handler0 None [] [] = ([], Inl EmptyChainList)"
  using verifyPeerCertificate_empty [of world0 handler0 "Some 10" "[rootCA]"]
    verifyPeerCertificate_empty [of world0 handler0 None "[]"]
  by simp

section \<open>Facts about the verification loop\<close>

lemma splitChain_filter:
  "splitChain chain intermediates leaf =
     (intermediates @ filter IsCA chain,
      if filter (\<lambda>c. \<not> IsCA c) chain = [] then leaf
      else Some (last (filter (\<lambda>c. \<not> IsCA c) chain)))"
  by (induction chain arbitrary: intermediates leaf) auto

lemma verifyChain_Inr:
  assumes "verifyChain w m ident caBundle chain = (evs, Inr t)"
  shows "\<exists>intermediates leaf. splitChain chain [] None = (intermediates, Some leaf)
           \<and> Verify w leaf caBundle intermediates = None \<and> t = NotAfter leaf
           \<and> (case ident of None \<Rightarrow> True
               | Some i \<Rightarrow> ValidateIdentity (cert m) i leaf = Inr True)"
  using assms unfolding verifyChain_def
  by (auto split: prod.splits option.splits sum.splits if_splits)

lemma verifyChains_Inr_last:
  assumes "verifyChains w m ident caBundle certChains expiration = (evs, Inr r)"
    and "certChains \<noteq> []"
  shows "\<exists>evs' t. verifyChain w m ident caBundle (last certChains) = (evs', Inr t) \<and> r = Some t"
  using assms
proof (induction certChains arbitrary: expiration evs)
  case Nil
  then show ?case by simp
next
  case (Cons chain certChains)
  then show ?case
    by (cases certChains) (auto split: prod.splits sum.splits)
qed

lemma verifyChains_Inr_all:
  assumes "verifyChains w m ident caBundle certChains expiration = (evs, Inr r)"
    and "chain \<in> set certChains"
  shows "\<exists>evs' t. verifyChain w m ident caBundle chain = (evs', Inr t)"
  using assms
proof (induction certChains arbitrary: expiration evs)
  case Nil
  then show ?case by simp
next
  case (Cons c certChains)
  then show ?case
    by (auto split: prod.splits sum.splits)
qed

lemma verifyPeerCertificate_single:
  "verifyPeerCertificate w m ident caBundle [chain] =
     (case verifyChain w m ident caBundle chain of
        (evs, Inl err) \<Rightarrow> (evs, Inl err)
      | (evs, Inr t) \<Rightarrow> (evs, Inr (Some t)))"
  by (simp add: verifyPeerCertificate_def split: prod.splits sum.splits)

section \<open>The expiration time of a list of chains\<close>

text \<open>
  C2, as the code has it: when verifyPeerCertificate succeeds, the list of chains is not
  empty and the returned expiration time is the NotAfter of the leaf of the last chain
  of the list, a leaf that passed path validation: every chain's leaf overwrites the
  expiration of the chain before it. For a list of one chain, which is what the callback
  of authenticate passes, it is the NotAfter of that chain's leaf.
\<close>

theorem verifyPeerCertificate_expiration_last:
  assumes "verifyPeerCertificate w m ident caBundle certChains = (evs, Inr r)"
  shows "certChains \<noteq> []
    \<and> (\<exists>intermediates leaf.
          splitChain (last certChains) [] None = (intermediates, Some leaf)
          \<and> Verify w leaf caBundle intermediates = None
          \<and> r = Some (NotAfter leaf))
    \<and> (\<forall>chain. certChains = [chain] \<longrightarrow>
          (\<exists>intermediates leaf.
             splitChain chain [] None = (intermediates, Some leaf)
             \<and> r = Some (NotAfter leaf)))"
proof -
  from assms have ne: "certChains \<noteq> []"
    by (auto simp: verifyPeerCertificate_def)
  with assms have "verifyChains w m ident caBundle certChains None = (evs, Inr r)"
    by (simp add: verifyPeerCertificate_def)
  from verifyChains_Inr_last [OF this ne] obtain evs' t where
    t: "verifyChain w m ident caBundle (last certChains) = (evs', Inr t)" "r = Some t"
    by blast
  from verifyChain_Inr [OF t(1)] obtain intermediates leaf where
    l: "splitChain (last certChains) [] None = (intermediates, Some leaf)"
       "Verify w leaf caBundle intermediates = None" "t = NotAfter leaf"
    by blast
  have last: "\<exists>intermediates leaf.
          splitChain (last certChains) [] None = (intermediates, Some leaf)
          \<and> Verify w leaf caBundle intermediates = None
          \<and> r = Some (NotAfter leaf)"
    using l t(2) by blast
  then have "\<forall>chain. certChains = [chain] \<longrightarrow>
          (\<exists>intermediates leaf.
             splitChain chain [] None = (intermediates, Some leaf)
             \<and> r = Some (NotAfter leaf))"
    by auto
  with ne last show ?thesis by blast
qed

text \<open>
  Two chains, the remote leaf alone and the local leaf with the intermediate CA: both
  verify, and the expiration returned is the local leaf's, the last chain's.
\<close>

theorem verifyPeerCertificate_expiration_last_witness:
  "snd (verifyPeerCertificate world0 handler0 None [rootCA] [[remoteLeaf], [intermediateCA, localLeaf]])
     = Inr (Some 1893456000)
   \<and> (\<exists>intermediates leaf.
          splitChain (last [[remoteLeaf], [intermediateCA, localLeaf]]) [] None
            = (intermediates, Some leaf)
          \<and> Verify world0 leaf [rootCA] intermediates = None
          \<and> Some (1893456000::int) = Some (NotAfter leaf))"
proof -
  have run: "verifyPeerCertificate world0 handler0 None [rootCA]
      [[remoteLeaf], [intermediateCA, localLeaf]]
    = ([EvVerify remoteLeaf [rootCA] [], EvLog Debug ''Validated certificate'',
        EvVerify localLeaf [rootCA] [intermediateCA], EvLog Debug ''Validated certificate''],
       Inr (Some 1893456000))"
    by (simp add: verifyPeerCertificate_def verifyChain_def scenario_defs)
  from verifyPeerCertificate_expiration_last [OF run] run show ?thesis
    by simp
qed

text \<open>
  The returned expiration is not the minimum over the verified chains: for the chains
  of the remote leaf (2029-06-01) and of the local leaf (2030-01-01), in this order,
  both verified, verifyPeerCertificate returns 2030-01-01, which is later than the
  first chain's leaf expiration.
\<close>

theorem verifyPeerCertificate_minimum_counterexample:
  "snd (verifyPeerCertificate world0 handler0 None [rootCA] [[remoteLeaf], [localLeaf]])
     = Inr (Some 1893456000)
   \<and> splitChain [remoteLeaf] [] None = ([], Some remoteLeaf)
   \<and> Verify world0 remoteLeaf [rootCA] [] = None
   \<and> \<not> (1893456000 \<le> NotAfter remoteLeaf)"
  by (simp add: verifyPeerCertificate_def verifyChain_def scenario_defs)

lemma callback_Some:
  assumes "verifyPeerCertificateCallback w m ar caBundle rawCerts (Some t0) = (evs, r)"
  shows "\<exists>e err. r = Inr (Some e, err)"
  using assms unfolding verifyPeerCertificateCallback_def
  by (auto split: sum.splits prod.splits option.splits if_splits)

lemma callback_success:
  assumes "verifyPeerCertificateCallback w m ar caBundle rawCerts (Some t0) = (evs, Inr (e, None))"
  shows "\<exists>chain intermediates leaf.
           parseChain w rawCerts = Inr chain
           \<and> splitChain chain [] None = (intermediates, Some leaf)
           \<and> Verify w leaf caBundle intermediates = None
           \<and> ValidateIdentity (cert m) (remoteIdentity ar) leaf = Inr True
           \<and> e = Some (min t0 (NotAfter leaf))"
proof -
  from assms obtain chain where p: "parseChain w rawCerts = Inr chain"
    unfolding verifyPeerCertificateCallback_def by (auto split: sum.splits)
  from assms p obtain evs' t where
    v: "verifyChain w m (Some (remoteIdentity ar)) caBundle chain = (evs', Inr t)"
    and e: "e = (if t < t0 then Some t else Some t0)"
    unfolding verifyPeerCertificateCallback_def verifyPeerCertificate_single
    by (auto split: sum.splits prod.splits option.splits if_splits)
  from verifyChain_Inr [OF v] obtain intermediates leaf where
    l: "splitChain chain [] None = (intermediates, Some leaf)"
       "Verify w leaf caBundle intermediates = None" "t = NotAfter leaf"
       "ValidateIdentity (cert m) (remoteIdentity ar) leaf = Inr True"
    by auto
  from e l(3) have "e = Some (min t0 (NotAfter leaf))"
    by (simp add: min_def)
  with p l show ?thesis by blast
qed

lemma tlsHandshake_Some:
  assumes "tlsHandshake w m ar caBundle (Some t0) = (evs, r)"
  shows "\<exists>e err. r = Inr (Some e, err)"
proof (cases "TLSPeer w (NumericIdentityToSNI (cert m) (remoteIdentity ar))")
  case (AbortBeforeCertificates err)
  with assms show ?thesis by (auto simp: tlsHandshake_def)
next
  case (PresentCertificates rawCerts rest)
  obtain evs' r' where c:
    "verifyPeerCertificateCallback w m ar caBundle rawCerts (Some t0) = (evs', r')"
    by (cases "verifyPeerCertificateCallback w m ar caBundle rawCerts (Some t0)")
  from callback_Some [OF c] obtain e err where "r' = Inr (Some e, err)" by blast
  with assms PresentCertificates c show ?thesis
    by (cases err) (auto simp: tlsHandshake_def)
qed

lemma tlsHandshake_success:
  assumes "tlsHandshake w m ar caBundle (Some t0) = (evs, Inr (e, None))"
  shows "\<exists>rawCerts chain intermediates leaf.
           TLSPeer w (NumericIdentityToSNI (cert m) (remoteIdentity ar))
             = PresentCertificates rawCerts None
           \<and> parseChain w rawCerts = Inr chain
           \<and> splitChain chain [] None = (intermediates, Some leaf)
           \<and> Verify w leaf caBundle intermediates = None
           \<and> ValidateIdentity (cert m) (remoteIdentity ar) leaf = Inr True
           \<and> e = Some (min t0 (NotAfter leaf))"
proof (cases "TLSPeer w (NumericIdentityToSNI (cert m) (remoteIdentity ar))")
  case (AbortBeforeCertificates err)
  with assms show ?thesis by (auto simp: tlsHandshake_def)
next
  case (PresentCertificates rawCerts rest)
  with assms obtain evs' where
    "verifyPeerCertificateCallback w m ar caBundle rawCerts (Some t0) = (evs', Inr (e, None))"
    and "rest = None"
    by (auto simp: tlsHandshake_def Let_def split: prod.splits sum.splits option.splits)
  with callback_success [OF this(1)] PresentCertificates show ?thesis
    by auto
qed

section \<open>The expiration time of authenticate\<close>

text \<open>
  C1: whenever authenticate returns a response, the provider gave a local certificate
  with a leaf, the peer presented certificates that parse into a chain whose leaf (the
  peer's leaf) passed path validation against the trust bundle, and the response's
  expirationTime is the minimum of the local leaf's NotAfter and the peer leaf's
  NotAfter: the peer's when it is strictly earlier, the local one otherwise.
\<close>

theorem authenticate_expiration_min:
  assumes "authenticate w m (Some ar) = (evs, Inr resp)"
  shows "\<exists>clientCert localLeaf caBundle rawCerts chain intermediates peerLeaf.
           GetCertificateForIdentity (cert m) (localIdentity ar) = Inr (Some clientCert)
           \<and> Leaf clientCert = Some localLeaf
           \<and> GetTrustBundle (cert m) = Inr caBundle
           \<and> TLSPeer w (NumericIdentityToSNI (cert m) (remoteIdentity ar))
               = PresentCertificates rawCerts None
           \<and> parseChain w rawCerts = Inr chain
           \<and> splitChain chain [] None = (intermediates, Some peerLeaf)
           \<and> Verify w peerLeaf caBundle intermediates = None
           \<and> expirationTime resp = min (NotAfter localLeaf) (NotAfter peerLeaf)
           \<and> expirationTime resp =
               (if NotAfter peerLeaf < NotAfter localLeaf then NotAfter peerLeaf
                else NotAfter localLeaf)"
proof -
  from assms obtain clientCert caBundle t0 evs' where
    g: "GetCertificateForIdentity (cert m) (localIdentity ar) = Inr clientCert"
    and b: "GetTrustBundle (cert m) = Inr caBundle"
    and l: "leafNotAfter clientCert = Some t0"
    and h: "tlsHandshake w m ar caBundle (Some t0) = (evs', Inr (Some (expirationTime resp), None))"
    unfolding authenticate_def
    by (auto simp: Let_def split: sum.splits option.splits prod.splits)
  from l obtain c localLeaf where
    c: "clientCert = Some c" "Leaf c = Some localLeaf" "t0 = NotAfter localLeaf"
    by (auto simp: leafNotAfter_def split: option.splits)
  from tlsHandshake_success [OF h] obtain rawCerts chain intermediates peerLeaf where
    p: "TLSPeer w (NumericIdentityToSNI (cert m) (remoteIdentity ar))
          = PresentCertificates rawCerts None"
       "parseChain w rawCerts = Inr chain"
       "splitChain chain [] None = (intermediates, Some peerLeaf)"
       "Verify w peerLeaf caBundle intermediates = None"
       "expirationTime resp = min t0 (NotAfter peerLeaf)"
    by auto
  from p(5) c(3) have m1: "expirationTime resp = min (NotAfter localLeaf) (NotAfter peerLeaf)"
    by simp
  then have m2: "expirationTime resp =
               (if NotAfter peerLeaf < NotAfter localLeaf then NotAfter peerLeaf
                else NotAfter localLeaf)"
    by (simp add: min_def)
  from g c(1) have g': "GetCertificateForIdentity (cert m) (localIdentity ar) = Inr (Some c)"
    by simp
  from g' c(2) b p(1-4) m1 m2 show ?thesis by blast
qed

text \<open>
  The scenario of the specification: local expiration 2030-01-01, remote expiration
  2029-06-01, and authenticate returns 2029-06-01.
\<close>

theorem authenticate_expiration_min_witness:
  "snd (authenticate world0 handler0 (Some request0)) = Inr \<lparr>expirationTime = 1874966400\<rparr>
   \<and> (\<exists>clientCert localLeaf caBundle rawCerts chain intermediates peerLeaf.
           GetCertificateForIdentity (cert handler0) (localIdentity request0) = Inr (Some clientCert)
           \<and> Leaf clientCert = Some localLeaf
           \<and> GetTrustBundle (cert handler0) = Inr caBundle
           \<and> TLSPeer world0 (NumericIdentityToSNI (cert handler0) (remoteIdentity request0))
               = PresentCertificates rawCerts None
           \<and> parseChain world0 rawCerts = Inr chain
           \<and> splitChain chain [] None = (intermediates, Some peerLeaf)
           \<and> Verify world0 peerLeaf caBundle intermediates = None
           \<and> expirationTime \<lparr>expirationTime = 1874966400\<rparr>
               = min (NotAfter localLeaf) (NotAfter peerLeaf)
           \<and> expirationTime \<lparr>expirationTime = 1874966400\<rparr> =
               (if NotAfter peerLeaf < NotAfter localLeaf then NotAfter peerLeaf
                else NotAfter localLeaf))"
proof (intro conjI)
  have run: "authenticate world0 handler0 (Some request0)
    = ([EvGetCertificateForIdentity 5, EvGetTrustBundle, EvDial ''10.0.0.2'' 4250,
        EvNumericIdentityToSNI 10, EvHandshake ''10.cilium'',
        EvVerify remoteLeaf [rootCA] [intermediateCA],
        EvLog Debug ''Validating Server SNI'', EvValidateIdentity 10 remoteLeaf,
        EvLog Debug ''Validated certificate'', EvTLSClose, EvConnClose],
       Inr \<lparr>expirationTime = 1874966400\<rparr>)"
    by (simp add: authenticate_def tlsHandshake_def verifyPeerCertificateCallback_def
        verifyPeerCertificate_def verifyChain_def leafNotAfter_def scenario_defs)
  then show "snd (authenticate world0 handler0 (Some request0))
      = Inr \<lparr>expirationTime = 1874966400\<rparr>"
    by simp
  from run show "\<exists>clientCert localLeaf caBundle rawCerts chain intermediates peerLeaf.
           GetCertificateForIdentity (cert handler0) (localIdentity request0) = Inr (Some clientCert)
           \<and> Leaf clientCert = Some localLeaf
           \<and> GetTrustBundle (cert handler0) = Inr caBundle
           \<and> TLSPeer world0 (NumericIdentityToSNI (cert handler0) (remoteIdentity request0))
               = PresentCertificates rawCerts None
           \<and> parseChain world0 rawCerts = Inr chain
           \<and> splitChain chain [] None = (intermediates, Some peerLeaf)
           \<and> Verify world0 peerLeaf caBundle intermediates = None
           \<and> expirationTime \<lparr>expirationTime = 1874966400\<rparr>
               = min (NotAfter localLeaf) (NotAfter peerLeaf)
           \<and> expirationTime \<lparr>expirationTime = 1874966400\<rparr> =
               (if NotAfter peerLeaf < NotAfter localLeaf then NotAfter peerLeaf
                else NotAfter localLeaf)"
    by (rule authenticate_expiration_min)
qed

text \<open>
  C9: authenticate never returns the NoExpirationDetermined error ("failed to get
  expiration time of peer certificate"), whatever the collaborators do: the pointer
  expirationTime starts as the address of the local leaf's NotAfter, and the callback,
  run on a pointer that is not nil, leaves a pointer that is not nil.
\<close>

theorem authenticate_expiration_never_nil:
  "snd (authenticate w m arp) \<noteq> Inl NoExpirationDetermined
   \<and> (\<forall>ar caBundle rawCerts localNotAfter.
        \<exists>e err. snd (verifyPeerCertificateCallback w m ar caBundle rawCerts (Some localNotAfter))
                 = Inr (Some e, err))"
proof -
  have cb: "\<forall>ar caBundle rawCerts localNotAfter.
        \<exists>e err. snd (verifyPeerCertificateCallback w m ar caBundle rawCerts (Some localNotAfter))
                 = Inr (Some e, err)"
    using callback_Some by (metis prod.collapse)
  have "snd (authenticate w m arp) \<noteq> Inl NoExpirationDetermined"
    unfolding authenticate_def
    by (auto simp: Let_def split: sum.splits option.splits prod.splits
        dest!: tlsHandshake_Some)
  with cb show ?thesis by blast
qed

theorem authenticate_expiration_never_nil_witness:
  "snd (authenticate world0 handler0 (Some request0)) \<noteq> Inl NoExpirationDetermined
   \<and> snd (authenticate world0 handler0 (Some (request0\<lparr>remoteIdentity := 5\<rparr>)))
       \<noteq> Inl NoExpirationDetermined"
  using authenticate_expiration_never_nil [of world0 handler0 "Some request0"]
    authenticate_expiration_never_nil [of world0 handler0 "Some (request0\<lparr>remoteIdentity := 5\<rparr>)"]
  by simp

lemma errorsIs_refl: "errorsIs e e"
  by (cases e) simp_all

lemma verifyChains_append:
  "verifyChains w m ident caBundle (xs @ ys) expiration =
     (case verifyChains w m ident caBundle xs expiration of
        (evs, Inl err) \<Rightarrow> (evs, Inl err)
      | (evs, Inr expiration') \<Rightarrow>
          (case verifyChains w m ident caBundle ys expiration' of
             (evs', r) \<Rightarrow> (evs @ evs', r)))"
  by (induction xs arbitrary: expiration) (auto split: prod.splits sum.splits)

lemma verifyChain_no_identity:
  "verifyChain w (m\<lparr>cert := (cert m)\<lparr>ValidateIdentity := f\<rparr>\<rparr>) None caBundle chain
     = verifyChain w m None caBundle chain"
  by (simp add: verifyChain_def split: prod.splits option.splits)

lemma verifyChains_no_identity:
  "verifyChains w (m\<lparr>cert := (cert m)\<lparr>ValidateIdentity := f\<rparr>\<rparr>) None caBundle certChains e
     = verifyChains w m None caBundle certChains e"
  by (induction certChains arbitrary: e) (simp_all add: verifyChain_no_identity)

section \<open>The identity check\<close>

text \<open>
  C3: for a chain whose leaf passes path validation against the trust bundle:
  with an expected identity for which ValidateIdentity returns false,
  verifyPeerCertificate on that chain returns the IdentityMismatch error, it returns
  IdentityMismatch on every list in which the chains before that one succeed, and it
  succeeds on no list that holds the chain; when ValidateIdentity returns an error, the
  result is that error wrapped ("failed to validate SAN: %w"), which errors.Is finds;
  with no expected identity the chain is accepted with no call of ValidateIdentity, and
  on any list of chains the result does not depend on what ValidateIdentity computes.
\<close>

theorem verifyPeerCertificate_identity_check:
  assumes split: "splitChain chain [] None = (intermediates, Some leaf)"
    and trusted: "Verify w leaf caBundle intermediates = None"
  shows "(ValidateIdentity (cert m) i leaf = Inr False \<longrightarrow>
            verifyPeerCertificate w m (Some i) caBundle [chain]
              = ([EvVerify leaf caBundle intermediates, EvLog Debug ''Validating Server SNI'',
                  EvValidateIdentity i leaf], Inl IdentityMismatch)
            \<and> (\<forall>before after r.
                  snd (verifyChains w m (Some i) caBundle before None) = Inr r \<longrightarrow>
                  snd (verifyPeerCertificate w m (Some i) caBundle (before @ chain # after))
                    = Inl IdentityMismatch)
            \<and> (\<forall>before after evs r.
                  verifyPeerCertificate w m (Some i) caBundle (before @ chain # after)
                    \<noteq> (evs, Inr r)))
       \<and> (\<forall>err. ValidateIdentity (cert m) i leaf = Inl err \<longrightarrow>
            verifyPeerCertificate w m (Some i) caBundle [chain]
              = ([EvVerify leaf caBundle intermediates, EvLog Debug ''Validating Server SNI'',
                  EvValidateIdentity i leaf], Inl (IdentityValidationFailed err))
            \<and> errorsIs (IdentityValidationFailed err) err)
       \<and> verifyPeerCertificate w m None caBundle [chain]
           = ([EvVerify leaf caBundle intermediates, EvLog Debug ''Validated certificate''],
              Inr (Some (NotAfter leaf)))
       \<and> (\<forall>f certChains.
            verifyPeerCertificate w (m\<lparr>cert := (cert m)\<lparr>ValidateIdentity := f\<rparr>\<rparr>) None
              caBundle certChains
            = verifyPeerCertificate w m None caBundle certChains)"
proof -
  have mismatch: "verifyChain w m (Some i) caBundle chain
      = ([EvVerify leaf caBundle intermediates, EvLog Debug ''Validating Server SNI'',
          EvValidateIdentity i leaf], Inl IdentityMismatch)"
    if "ValidateIdentity (cert m) i leaf = Inr False"
    using that split trusted by (simp add: verifyChain_def)
  have single: "verifyPeerCertificate w m (Some i) caBundle [chain]
      = ([EvVerify leaf caBundle intermediates, EvLog Debug ''Validating Server SNI'',
          EvValidateIdentity i leaf], Inl IdentityMismatch)"
    if "ValidateIdentity (cert m) i leaf = Inr False"
    using mismatch [OF that] by (simp add: verifyPeerCertificate_single)
  have first: "snd (verifyPeerCertificate w m (Some i) caBundle (before @ chain # after))
      = Inl IdentityMismatch"
    if "ValidateIdentity (cert m) i leaf = Inr False"
      and "snd (verifyChains w m (Some i) caBundle before None) = Inr r"
    for before after r
    using mismatch [OF that(1)] that(2)
    by (cases "verifyChains w m (Some i) caBundle before None")
      (simp add: verifyPeerCertificate_def verifyChains_append)
  have never: "verifyPeerCertificate w m (Some i) caBundle (before @ chain # after)
      \<noteq> (evs, Inr r)"
    if v: "ValidateIdentity (cert m) i leaf = Inr False" for before after evs r
  proof
    assume "verifyPeerCertificate w m (Some i) caBundle (before @ chain # after) = (evs, Inr r)"
    then have "verifyChains w m (Some i) caBundle (before @ chain # after) None = (evs, Inr r)"
      by (simp add: verifyPeerCertificate_def)
    from verifyChains_Inr_all [OF this, of chain] mismatch [OF v] show False
      by simp
  qed
  have failed: "verifyPeerCertificate w m (Some i) caBundle [chain]
      = ([EvVerify leaf caBundle intermediates, EvLog Debug ''Validating Server SNI'',
          EvValidateIdentity i leaf], Inl (IdentityValidationFailed err))"
    if "ValidateIdentity (cert m) i leaf = Inl err" for err
    using that split trusted by (simp add: verifyPeerCertificate_single verifyChain_def)
  have wraps: "errorsIs (IdentityValidationFailed err) err" for err
    by (simp add: errorsIs_refl)
  have skipped: "verifyPeerCertificate w m None caBundle [chain]
      = ([EvVerify leaf caBundle intermediates, EvLog Debug ''Validated certificate''],
         Inr (Some (NotAfter leaf)))"
    using split trusted by (simp add: verifyPeerCertificate_single verifyChain_def)
  have unused: "verifyPeerCertificate w (m\<lparr>cert := (cert m)\<lparr>ValidateIdentity := f\<rparr>\<rparr>) None
        caBundle certChains
      = verifyPeerCertificate w m None caBundle certChains" for f certChains
    by (simp add: verifyPeerCertificate_def verifyChains_no_identity)
  from single first never failed wraps skipped unused show ?thesis
    by blast
qed

text \<open>
  The local leaf with the intermediate CA is trusted; checked against identity 10 it
  is a mismatch; with a provider whose ValidateIdentity fails, the failure is returned
  wrapped; with no expected identity the chain is accepted.
\<close>

theorem verifyPeerCertificate_identity_check_witness:
  "splitChain [intermediateCA, localLeaf] [] None = ([intermediateCA], Some localLeaf)
   \<and> Verify world0 localLeaf [rootCA] [intermediateCA] = None
   \<and> ValidateIdentity (cert handler0) 10 localLeaf = Inr False
   \<and> verifyPeerCertificate world0 handler0 (Some 10) [rootCA] [[intermediateCA, localLeaf]]
       = ([EvVerify localLeaf [rootCA] [intermediateCA], EvLog Debug ''Validating Server SNI'',
           EvValidateIdentity 10 localLeaf], Inl IdentityMismatch)
   \<and> verifyPeerCertificate world0
        (handler0\<lparr>cert := provider0\<lparr>ValidateIdentity := \<lambda>i c. Inl (External ''no bundle'')\<rparr>\<rparr>)
        (Some 10) [rootCA] [[intermediateCA, localLeaf]]
       = ([EvVerify localLeaf [rootCA] [intermediateCA], EvLog Debug ''Validating Server SNI'',
           EvValidateIdentity 10 localLeaf],
          Inl (IdentityValidationFailed (External ''no bundle'')))
   \<and> verifyPeerCertificate world0 handler0 None [rootCA] [[intermediateCA, localLeaf]]
       = ([EvVerify localLeaf [rootCA] [intermediateCA], EvLog Debug ''Validated certificate''],
          Inr (Some 1893456000))"
proof -
  have split: "splitChain [intermediateCA, localLeaf] [] None = ([intermediateCA], Some localLeaf)"
    by (simp add: scenario_defs)
  have trusted: "Verify world0 localLeaf [rootCA] [intermediateCA] = None"
    by (simp add: scenario_defs)
  have mismatch: "ValidateIdentity (cert handler0) 10 localLeaf = Inr False"
    by (simp add: scenario_defs)
  have failing: "ValidateIdentity
      (cert (handler0\<lparr>cert := provider0\<lparr>ValidateIdentity := \<lambda>i c. Inl (External ''no bundle'')\<rparr>\<rparr>))
      10 localLeaf = Inl (External ''no bundle'')"
    by simp
  have t: "NotAfter localLeaf = 1893456000"
    by (simp add: localLeaf_def)
  from verifyPeerCertificate_identity_check [OF split trusted, of handler0 10]
    verifyPeerCertificate_identity_check [OF split trusted,
      of "handler0\<lparr>cert := provider0\<lparr>ValidateIdentity := \<lambda>i c. Inl (External ''no bundle'')\<rparr>\<rparr>" 10]
    split trusted mismatch failing t
  show ?thesis
    by simp
qed

section \<open>The nil request\<close>

text \<open>
  C6: authenticate on a nil request returns the InvalidRequest error and causes no
  event: no call of GetCertificateForIdentity or GetTrustBundle, no dial, no handshake.
\<close>

theorem authenticate_nil:
  "authenticate w m None = ([], Inl InvalidRequest)"
  by (simp add: authenticate_def)

theorem authenticate_nil_witness:
  "authenticate world0 handler0 None = ([], Inl InvalidRequest)"
  using authenticate_nil [of world0 handler0]
  by simp

section \<open>Leaf and intermediates of a chain\<close>

text \<open>
  C5, as the code has it: the intermediates are the certificates of the chain with the
  CA flag, in order, and the leaf is the last certificate without it; a chain with no
  such certificate, and only such a chain, makes verification fail with
  MissingLeafCertificate, with no event before (no path validation); and when exactly
  one certificate of the chain has no CA flag, it is the leaf, and leaf and
  intermediates partition the chain.
\<close>

theorem splitChain_leaf_and_intermediates:
  "fst (splitChain chain [] None) = filter IsCA chain
   \<and> snd (splitChain chain [] None) =
       (if filter (\<lambda>c. \<not> IsCA c) chain = [] then None
        else Some (last (filter (\<lambda>c. \<not> IsCA c) chain)))
   \<and> (list_all IsCA chain \<longrightarrow>
        verifyChain w m ident caBundle chain = ([], Inl MissingLeafCertificate)
        \<and> verifyPeerCertificate w m ident caBundle [chain] = ([], Inl MissingLeafCertificate))
   \<and> (snd (verifyChain w m ident caBundle chain) = Inl MissingLeafCertificate
        \<longleftrightarrow> list_all IsCA chain)
   \<and> (\<forall>leaf. filter (\<lambda>c. \<not> IsCA c) chain = [leaf] \<longrightarrow>
        splitChain chain [] None = (filter IsCA chain, Some leaf)
        \<and> spec_partition chain (filter IsCA chain) leaf)"
proof -
  have nonCA: "filter (\<lambda>c. \<not> IsCA c) chain = [] \<longleftrightarrow> list_all IsCA chain"
    by (induction chain) auto
  have a: "fst (splitChain chain [] None) = filter IsCA chain"
    by (simp add: splitChain_filter)
  have b: "snd (splitChain chain [] None) =
       (if filter (\<lambda>c. \<not> IsCA c) chain = [] then None
        else Some (last (filter (\<lambda>c. \<not> IsCA c) chain)))"
    by (simp add: splitChain_filter)
  have c: "verifyChain w m ident caBundle chain = ([], Inl MissingLeafCertificate)"
    if "list_all IsCA chain"
    using that nonCA by (simp add: verifyChain_def splitChain_filter)
  then have c': "verifyPeerCertificate w m ident caBundle [chain] = ([], Inl MissingLeafCertificate)"
    if "list_all IsCA chain"
    using that by (simp add: verifyPeerCertificate_single)
  have d: "snd (verifyChain w m ident caBundle chain) = Inl MissingLeafCertificate
        \<longleftrightarrow> list_all IsCA chain"
    using nonCA
    by (auto simp: verifyChain_def splitChain_filter split: option.splits sum.splits)
  have e: "splitChain chain [] None = (filter IsCA chain, Some leaf)
        \<and> spec_partition chain (filter IsCA chain) leaf"
    if l: "filter (\<lambda>c. \<not> IsCA c) chain = [leaf]" for leaf
  proof -
    have "mset chain = mset (filter IsCA chain) + mset (filter (\<lambda>c. \<not> IsCA c) chain)"
      by (induction chain) auto
    with l have m: "mset chain = mset (filter IsCA chain) + {#leaf#}"
      by simp
    from l have "leaf \<in> set (filter (\<lambda>c. \<not> IsCA c) chain)"
      by simp
    then have n: "\<not> IsCA leaf"
      by simp
    have "list_all IsCA (filter IsCA chain)"
      by (simp add: list_all_iff)
    with m n l show ?thesis
      by (simp add: spec_partition_def splitChain_filter)
  qed
  from a b c c' d e show ?thesis
    by blast
qed

text \<open>
  A chain of CA certificates only has no leaf; the intermediate CA with the remote
  leaf is partitioned.
\<close>

theorem splitChain_leaf_and_intermediates_witness:
  "list_all IsCA [rootCA, intermediateCA]
   \<and> verifyPeerCertificate world0 handler0 None [rootCA] [[rootCA, intermediateCA]]
       = ([], Inl MissingLeafCertificate)
   \<and> filter (\<lambda>c. \<not> IsCA c) [intermediateCA, remoteLeaf] = [remoteLeaf]
   \<and> splitChain [intermediateCA, remoteLeaf] [] None = ([intermediateCA], Some remoteLeaf)
   \<and> spec_partition [intermediateCA, remoteLeaf] [intermediateCA] remoteLeaf"
proof -
  have h1: "list_all IsCA [rootCA, intermediateCA]"
    by (simp add: scenario_defs)
  have h2: "filter (\<lambda>c. \<not> IsCA c) [intermediateCA, remoteLeaf] = [remoteLeaf]"
    by (simp add: scenario_defs)
  have h3: "filter IsCA [intermediateCA, remoteLeaf] = [intermediateCA]"
    by (simp add: scenario_defs)
  from splitChain_leaf_and_intermediates [of "[rootCA, intermediateCA]" world0 handler0 None "[rootCA]"]
    splitChain_leaf_and_intermediates [of "[intermediateCA, remoteLeaf]" world0 handler0 None "[rootCA]"]
    h1 h2 h3
  show ?thesis
    by simp
qed

text \<open>
  A chain of two certificates without the CA flag is not partitioned into
  intermediates and one leaf: the second is the leaf, the first is in neither part, and
  verification succeeds all the same.
\<close>

theorem splitChain_partition_counterexample:
  "splitChain [remoteLeaf, localLeaf] [] None = ([], Some localLeaf)
   \<and> \<not> spec_partition [remoteLeaf, localLeaf] [] localLeaf
   \<and> verifyPeerCertificate world0 handler0 None [rootCA] [[remoteLeaf, localLeaf]]
       = ([EvVerify localLeaf [rootCA] [], EvLog Debug ''Validated certificate''],
          Inr (Some 1893456000))"
  by (simp add: spec_partition_def verifyPeerCertificate_def verifyChain_def scenario_defs)

section \<open>Disabled by configuration\<close>

text \<open>
  C7: with MutualAuthListenerPort 0, newMTLSAuthHandler returns, for every lifecycle and
  every parameters (a nil certificate provider too, which is not looked at), the empty
  result, with no AuthHandler; it logs one Info line; the lifecycle is the one it was
  given, with no hook appended, so starting it causes the events it caused before, and
  starting a lifecycle that was empty opens no listening socket.
\<close>

theorem newMTLSAuthHandler_disabled:
  assumes "MutualAuthListenerPort config = 0"
  shows "newMTLSAuthHandler lc config params
           = ([EvLog Info ''mutual authentication handler is disabled as no port is configured''],
              Some (\<lparr>AuthHandler = None\<rparr>, lc))
    \<and> (\<forall>res lc'. snd (newMTLSAuthHandler lc config params) = Some (res, lc') \<longrightarrow>
          AuthHandler res = None \<and> lc' = lc
          \<and> startLifecycle w lc' outcomes = startLifecycle w lc outcomes
          \<and> (lc = [] \<longrightarrow> (\<forall>port. EvListen port \<notin> set (startLifecycle w lc' outcomes))))"
  using assms by (auto simp: newMTLSAuthHandler_def)

theorem newMTLSAuthHandler_disabled_witness:
  "MutualAuthListenerPort \<lparr>MutualAuthListenerPort = 0\<rparr> = 0
   \<and> newMTLSAuthHandler [] \<lparr>MutualAuthListenerPort = 0\<rparr> \<lparr>CertificateProviderOf = None\<rparr>
       = ([EvLog Info ''mutual authentication handler is disabled as no port is configured''],
          Some (\<lparr>AuthHandler = None\<rparr>, []))
   \<and> startLifecycle world0
        (snd (the (snd (newMTLSAuthHandler [] \<lparr>MutualAuthListenerPort = 0\<rparr>
           \<lparr>CertificateProviderOf = None\<rparr>)))) [] = []"
proof -
  have h: "MutualAuthListenerPort \<lparr>MutualAuthListenerPort = 0\<rparr> = 0"
    by simp
  from newMTLSAuthHandler_disabled [OF h, of "[]" "\<lparr>CertificateProviderOf = None\<rparr>" world0 "[]"]
  show ?thesis
    by simp
qed

text \<open>
  With a port and a provider the hook is appended, and starting the lifecycle binds the
  socket: the model of the disabled case is not the only behaviour there is.
\<close>

lemma newMTLSAuthHandler_enabled:
  "newMTLSAuthHandler [] (cfg handler0) \<lparr>CertificateProviderOf = Some provider0\<rparr>
     = ([], Some (\<lparr>AuthHandler = Some handler0\<rparr>, [Hook handler0]))
   \<and> startLifecycle world0 [Hook handler0] [AcceptError ErrClosed]
     = [EvLog Info ''Starting mTLS auth handler'', EvListen 4250,
        EvLog Info ''Started mTLS listener'', EvReady,
        EvLog Error ''Failed to accept connection'',
        EvLog Info ''mTLS listener socket got closed'']"
  by (simp add: newMTLSAuthHandler_def handler0_def onStart_def listenForConnections_def
      acceptIteration_def world0_def Let_def)

section \<open>The accept loop\<close>

lemma acceptLoop_Closed:
  "fst (acceptLoop outcomes) = Closed
     \<longleftrightarrow> (\<exists>err. AcceptError err \<in> set outcomes \<and> errorsIs err ErrClosed)"
proof (induction outcomes)
  case Nil
  then show ?case by simp
next
  case (Cons outcome outcomes)
  show ?case
  proof (cases outcome)
    case (Accepted conn)
    with Cons show ?thesis
      by (cases "acceptLoop outcomes") (simp add: acceptIteration_def)
  next
    case (AcceptError err)
    with Cons show ?thesis
      by (cases "acceptLoop outcomes") (auto simp: acceptIteration_def)
  qed
qed

text \<open>
  C8: an iteration of the accept loop whose Accept returned an error leaves the loop
  exactly when the error is net.ErrClosed (by errors.Is). On any other error the
  iteration logs "Failed to accept connection" and the loop goes on with the next
  Accept; on net.ErrClosed the loop returns and looks at no later outcome. So, after
  any sequence of Accept outcomes, the loop has returned exactly when one of them was
  an error that is net.ErrClosed, and it is still accepting exactly when none was; the
  same holds of listenForConnections once the socket is bound.
\<close>

theorem acceptLoop_exits_only_on_ErrClosed:
  "(fst (acceptIteration (AcceptError err)) = Closed \<longleftrightarrow> errorsIs err ErrClosed)
   \<and> (\<not> errorsIs err ErrClosed \<longrightarrow>
        acceptIteration (AcceptError err)
          = (Listening, [EvLog Error ''Failed to accept connection''])
        \<and> acceptLoop (AcceptError err # outcomes)
          = (fst (acceptLoop outcomes),
             EvLog Error ''Failed to accept connection'' # snd (acceptLoop outcomes)))
   \<and> (errorsIs err ErrClosed \<longrightarrow>
        acceptLoop (AcceptError err # outcomes)
          = (Closed, [EvLog Error ''Failed to accept connection'',
                      EvLog Info ''mTLS listener socket got closed'']))
   \<and> (fst (acceptLoop outcomes) = Closed
        \<longleftrightarrow> (\<exists>e. AcceptError e \<in> set outcomes \<and> errorsIs e ErrClosed))
   \<and> (fst (acceptLoop outcomes) = Listening
        \<longleftrightarrow> (\<forall>e. AcceptError e \<in> set outcomes \<longrightarrow> \<not> errorsIs e ErrClosed))
   \<and> (Listen w (MutualAuthListenerPort (cfg m)) = None \<longrightarrow>
        (snd (listenForConnections w m outcomes) = Some Closed
           \<longleftrightarrow> (\<exists>e. AcceptError e \<in> set outcomes \<and> errorsIs e ErrClosed)))"
proof -
  have a: "fst (acceptIteration (AcceptError err)) = Closed \<longleftrightarrow> errorsIs err ErrClosed"
    by (simp add: acceptIteration_def)
  have b: "acceptIteration (AcceptError err)
          = (Listening, [EvLog Error ''Failed to accept connection''])
        \<and> acceptLoop (AcceptError err # outcomes)
          = (fst (acceptLoop outcomes),
             EvLog Error ''Failed to accept connection'' # snd (acceptLoop outcomes))"
    if "\<not> errorsIs err ErrClosed"
    using that by (simp add: acceptIteration_def split: prod.splits)
  have c: "acceptLoop (AcceptError err # outcomes)
          = (Closed, [EvLog Error ''Failed to accept connection'',
                      EvLog Info ''mTLS listener socket got closed''])"
    if "errorsIs err ErrClosed"
    using that by (simp add: acceptIteration_def)
  have d: "fst (acceptLoop outcomes) = Closed
        \<longleftrightarrow> (\<exists>e. AcceptError e \<in> set outcomes \<and> errorsIs e ErrClosed)"
    by (rule acceptLoop_Closed)
  have "fst (acceptLoop outcomes) = Listening \<longleftrightarrow> fst (acceptLoop outcomes) \<noteq> Closed"
    by (cases "fst (acceptLoop outcomes)") simp_all
  with d have e: "fst (acceptLoop outcomes) = Listening
        \<longleftrightarrow> (\<forall>e. AcceptError e \<in> set outcomes \<longrightarrow> \<not> errorsIs e ErrClosed)"
    by blast
  have f: "snd (listenForConnections w m outcomes) = Some Closed
           \<longleftrightarrow> (\<exists>e. AcceptError e \<in> set outcomes \<and> errorsIs e ErrClosed)"
    if "Listen w (MutualAuthListenerPort (cfg m)) = None"
    using that d by (cases "acceptLoop outcomes") (simp add: listenForConnections_def)
  from a b c d e f show ?thesis
    by blast
qed

text \<open>
  A transient error, a connection, the close of the socket, and an outcome the loop
  never sees.
\<close>

theorem acceptLoop_exits_only_on_ErrClosed_witness:
  "\<not> errorsIs (External ''too many open files'') ErrClosed
   \<and> errorsIs (OpError ''accept'' ErrClosed) ErrClosed
   \<and> acceptLoop [AcceptError (External ''too many open files''), Accepted 1,
                 AcceptError (OpError ''accept'' ErrClosed), Accepted 2]
       = (Closed, [EvLog Error ''Failed to accept connection'', EvGoHandleConnection 1,
                   EvLog Error ''Failed to accept connection'',
                   EvLog Info ''mTLS listener socket got closed''])
   \<and> acceptLoop [AcceptError (External ''too many open files''), Accepted 1]
       = (Listening, [EvLog Error ''Failed to accept connection'', EvGoHandleConnection 1])"
proof -
  have h: "\<not> errorsIs (External ''too many open files'') ErrClosed"
    by simp
  have t: "acceptLoop [Accepted 1, AcceptError (OpError ''accept'' ErrClosed), Accepted 2]
      = (Closed, [EvGoHandleConnection 1, EvLog Error ''Failed to accept connection'',
                  EvLog Info ''mTLS listener socket got closed''])"
    by (simp add: acceptIteration_def)
  have t': "acceptLoop [Accepted 1] = (Listening, [EvGoHandleConnection 1])"
    by (simp add: acceptIteration_def)
  from acceptLoop_exits_only_on_ErrClosed [of "External ''too many open files''"
      "[Accepted 1, AcceptError (OpError ''accept'' ErrClosed), Accepted 2]" world0 handler0]
    acceptLoop_exits_only_on_ErrClosed [of "External ''too many open files''"
      "[Accepted 1]" world0 handler0] h t t'
  show ?thesis
    by simp
qed

section \<open>More than one certificate without the CA flag\<close>

text \<open>
  C10: in a chain, let leaf be the last certificate without the CA flag (all those
  after it have the flag). Then leaf is the leaf the code picks, whatever stands
  before it, and the intermediates are the CA certificates of the chain; the result and
  the events of verification are those of the chain without the earlier non-CA
  certificates, so no error comes from their presence (never MissingLeafCertificate);
  on success the expiration is leaf's NotAfter; and a non-CA certificate other than
  leaf is not path-validated, not identity-checked and not in the intermediates pool.
\<close>

theorem verifyChain_last_leaf_wins:
  assumes "\<not> IsCA leaf" and "list_all IsCA after"
  shows "splitChain (before @ leaf # after) [] None = (filter IsCA before @ after, Some leaf)
    \<and> verifyChain w m ident caBundle (before @ leaf # after)
        = verifyChain w m ident caBundle (filter IsCA before @ leaf # after)
    \<and> verifyPeerCertificate w m ident caBundle [before @ leaf # after]
        = verifyPeerCertificate w m ident caBundle [filter IsCA before @ leaf # after]
    \<and> snd (verifyChain w m ident caBundle (before @ leaf # after)) \<noteq> Inl MissingLeafCertificate
    \<and> (\<forall>evs t. verifyChain w m ident caBundle (before @ leaf # after) = (evs, Inr t) \<longrightarrow>
          t = NotAfter leaf)
    \<and> (\<forall>c roots pool i. \<not> IsCA c \<and> c \<noteq> leaf \<longrightarrow>
          EvVerify c roots pool \<notin> set (fst (verifyChain w m ident caBundle (before @ leaf # after)))
          \<and> EvValidateIdentity i c
              \<notin> set (fst (verifyChain w m ident caBundle (before @ leaf # after)))
          \<and> c \<notin> set (fst (splitChain (before @ leaf # after) [] None)))"
proof -
  from assms(2) have ca: "filter IsCA after = after" "filter (\<lambda>c. \<not> IsCA c) after = []"
    by (induction after) auto
  with assms(1) have sp:
    "splitChain (before @ leaf # after) [] None = (filter IsCA before @ after, Some leaf)"
    by (simp add: splitChain_filter)
  from ca assms(1) have sp':
    "splitChain (filter IsCA before @ leaf # after) [] None = (filter IsCA before @ after, Some leaf)"
    by (simp add: splitChain_filter)
  from sp sp' have eq: "verifyChain w m ident caBundle (before @ leaf # after)
        = verifyChain w m ident caBundle (filter IsCA before @ leaf # after)"
    by (simp add: verifyChain_def)
  then have eq': "verifyPeerCertificate w m ident caBundle [before @ leaf # after]
        = verifyPeerCertificate w m ident caBundle [filter IsCA before @ leaf # after]"
    by (simp add: verifyPeerCertificate_single)
  from sp have nm:
    "snd (verifyChain w m ident caBundle (before @ leaf # after)) \<noteq> Inl MissingLeafCertificate"
    by (simp add: verifyChain_def split: option.splits sum.splits)
  from sp have ex: "t = NotAfter leaf"
    if "verifyChain w m ident caBundle (before @ leaf # after) = (evs, Inr t)" for evs t
    using verifyChain_Inr [OF that] by simp
  have ign: "EvVerify c roots pool \<notin> set (fst (verifyChain w m ident caBundle (before @ leaf # after)))
          \<and> EvValidateIdentity i c
              \<notin> set (fst (verifyChain w m ident caBundle (before @ leaf # after)))
          \<and> c \<notin> set (fst (splitChain (before @ leaf # after) [] None))"
    if "\<not> IsCA c \<and> c \<noteq> leaf" for c roots pool i
    using that sp assms(2)
    by (auto simp: verifyChain_def list_all_iff split: option.splits sum.splits)
  from sp eq eq' nm ex ign show ?thesis
    by blast
qed

text \<open>
  The remote leaf, then the local leaf, then the intermediate CA: the local leaf is
  verified and gives the expiration; the remote leaf plays no part.
\<close>

theorem verifyChain_last_leaf_wins_witness:
  "\<not> IsCA localLeaf \<and> list_all IsCA [intermediateCA]
   \<and> splitChain [remoteLeaf, localLeaf, intermediateCA] [] None
       = ([intermediateCA], Some localLeaf)
   \<and> verifyPeerCertificate world0 handler0 None [rootCA] [[remoteLeaf, localLeaf, intermediateCA]]
       = ([EvVerify localLeaf [rootCA] [intermediateCA], EvLog Debug ''Validated certificate''],
          Inr (Some 1893456000))"
proof -
  have h1: "\<not> IsCA localLeaf" by (simp add: localLeaf_def)
  have h2: "list_all IsCA [intermediateCA]" by (simp add: intermediateCA_def)
  have r: "verifyPeerCertificate world0 handler0 None [rootCA] [[localLeaf, intermediateCA]]
       = ([EvVerify localLeaf [rootCA] [intermediateCA], EvLog Debug ''Validated certificate''],
          Inr (Some 1893456000))"
    by (simp add: verifyPeerCertificate_def verifyChain_def scenario_defs)
  from verifyChain_last_leaf_wins [OF h1 h2, of "[remoteLeaf]" world0 handler0 None "[rootCA]"]
    h1 h2 r
  show ?thesis
    by (simp add: remoteLeaf_def)
qed

end
